theory Spec2Isabelle
  imports Main
begin

section \<open>The register\_account command of letsencrypt\_utils\<close>

text \<open>
  The source file \<^verbatim>\<open>cmd/register_account/register_account.go\<close> holds two programs,
  each a single \<^verbatim>\<open>main\<close>:
  \<^item> lines 1 to 108, the key-only program: it writes the PEM of the account key to the
    output path and then registers the account;
  \<^item> lines 109 to 230, the credentials program: it registers the account and then writes
    a JSON record of the account URI and the PEM of the key.

  Both are straight-line code over library calls (net/mail, crypto/ecdsa, crypto/x509,
  encoding/pem, encoding/json, os, golang.org/x/crypto/acme). The libraries are not part
  of the repository: their answers are the fields of a record \<open>world\<close>, and a program is
  a function of the parsed flags and the world. What a run does to the outside (key
  generation, file writes, the registration call) is recorded, in order, in its list of
  effects; how it ends is its exit.
\<close>

subsection \<open>Library data\<close>

type_synonym bytes = string

text \<open>A Go \<^verbatim>\<open>error\<close> value returned by a library, kept as its message.\<close>

type_synonym go_error = string

text \<open>The curves of crypto/elliptic.\<close>

datatype curve = P224 | P256 | P384 | P521

text \<open>\<^verbatim>\<open>ecdsa.PrivateKey\<close>: the public key (curve, point) and the private scalar.\<close>

record ecdsa_PrivateKey =
  Curve :: curve
  X :: int
  Y :: int
  D :: int

text \<open>\<^verbatim>\<open>pem.Block\<close>, with the two fields the programs set.\<close>

record pem_Block =
  Type :: string
  Bytes :: bytes

text \<open>\<^verbatim>\<open>acme.Client\<close> and \<^verbatim>\<open>acme.Account\<close>, with the fields the programs set or read.\<close>

record acme_Client =
  Key :: ecdsa_PrivateKey
  DirectoryURL :: string

record acme_Account =
  URI :: string
  Contact :: "string list"

text \<open>A JSON value, what \<^verbatim>\<open>json.Marshal\<close> serialises.\<close>

datatype json =
    JNull
  | JBool bool
  | JNumber int
  | JString string
  | JArray "json list"
  | JObject "(string \<times> json) list"

text \<open>
  Modelled from the spec: the struct \<^verbatim>\<open>AccountCredentials\<close> of the package
  \<^verbatim>\<open>letsencrypt_utils/pkg/types\<close> is not among the sources; the program sets its fields
  \<^verbatim>\<open>Uri\<close> and \<^verbatim>\<open>Key\<close>.
\<close>

record AccountCredentials =
  Uri :: string
  cred_Key :: string

text \<open>
  Modelled from the spec: the JSON field names of \<^verbatim>\<open>AccountCredentials\<close> (its struct tags,
  in the missing package) are taken from the persisted credential format of the
  specification, a JSON object with the members \<^verbatim>\<open>uri\<close> and \<^verbatim>\<open>key\<close>, in the order of the
  struct's fields.
\<close>

definition AccountCredentials_json :: "AccountCredentials \<Rightarrow> json" where
  "AccountCredentials_json c = JObject [(''uri'', JString (Uri c)), (''key'', JString (cred_Key c))]"

text \<open>
  Modelled from the spec: \<^verbatim>\<open>acme.AcceptTOS\<close> is a function of golang.org/x/crypto/acme, the
  callback that agrees to the terms of service at any URL; the registration request of
  the specification has \<^verbatim>\<open>termsOfServiceAgreed: true\<close>.
\<close>

definition AcceptTOS :: "string \<Rightarrow> bool" where
  "AcceptTOS tosURL = True"

subsection \<open>Errors and exits\<close>

text \<open>A value of Go's \<^verbatim>\<open>any\<close>, as far as the programs build one.\<close>

datatype any = AnyString string | AnyList "any list"

text \<open>
  The two error structs of \<^verbatim>\<open>motmedelErrors\<close> the programs build:
  \<^verbatim>\<open>InputError{Message, Cause, Input}\<close> and \<^verbatim>\<open>CauseError{Message, Cause}\<close>.
\<close>

datatype motmedel_error =
    InputError string go_error any
  | CauseError string go_error

text \<open>
  A run ends by returning from \<^verbatim>\<open>main\<close> or in a call of
  \<^verbatim>\<open>motmedelLog.LogFatalWithExitingMessage(message, err, logger)\<close>, which logs and exits the
  process; \<open>None\<close> is the \<^verbatim>\<open>nil\<close> the programs pass as \<^verbatim>\<open>err\<close> at three places.
\<close>

datatype exit = Returned | Fatal string "motmedel_error option"

text \<open>A run fails with an \<^verbatim>\<open>InputError\<close> when the error of its fatal exit is one.\<close>

fun fails_with_InputError :: "exit \<Rightarrow> bool" where
  "fails_with_InputError (Fatal msg (Some (InputError m c i))) = True"
| "fails_with_InputError x = False"

subsection \<open>Effects and runs\<close>

text \<open>
  The calls that act on the outside: \<^verbatim>\<open>ecdsa.GenerateKey(curve, rand.Reader)\<close>,
  \<^verbatim>\<open>os.WriteFile(name, data, perm)\<close> and \<^verbatim>\<open>client.Register(ctx, account, prompt)\<close>, the only
  call that uses the network.
\<close>

datatype effect =
    is_GenerateKey: GenerateKey (gen_curve: curve)
  | is_WriteFile: WriteFile (path: string) (data: bytes) (perm: nat)
  | is_Register: Register (client: acme_Client) (acct: acme_Account) (prompt: "string \<Rightarrow> bool")

record run =
  effects :: "effect list"
  exit :: exit

text \<open>
  The answers of the libraries. \<open>None\<close> of an \<open>option\<close> and \<open>Inr\<close> of a sum are a
  \<^verbatim>\<open>nil\<close> error. \<^verbatim>\<open>Register\<close> returns a pointer to an account, which may be \<^verbatim>\<open>nil\<close>.
  \<^verbatim>\<open>acme.LetsEncryptURL\<close> is a constant of the acme package.
\<close>

record world =
  mail_ParseAddress :: "string \<Rightarrow> go_error option"
  ecdsa_GenerateKey :: "curve \<Rightarrow> go_error + ecdsa_PrivateKey"
  x509_MarshalECPrivateKey :: "ecdsa_PrivateKey \<Rightarrow> go_error + bytes"
  pem_EncodeToMemory :: "pem_Block \<Rightarrow> bytes"
  os_WriteFile :: "string \<Rightarrow> bytes \<Rightarrow> nat \<Rightarrow> go_error option"
  acme_LetsEncryptURL :: string
  acme_Register :: "acme_Client \<Rightarrow> acme_Account \<Rightarrow> (string \<Rightarrow> bool) \<Rightarrow> go_error + acme_Account option"
  json_Marshal :: "json \<Rightarrow> go_error + bytes"

text \<open>
  The flags after \<^verbatim>\<open>flag.Parse()\<close>: \<^verbatim>\<open>-email\<close>, \<^verbatim>\<open>-output\<close> and \<^verbatim>\<open>-staging\<close>. The output path
  is \<^verbatim>\<open>keyOutputPath\<close> in the key-only program (default \<^verbatim>\<open>account_key.pem\<close>) and
  \<^verbatim>\<open>accountCredentialsOutPath\<close> in the credentials program (default
  \<^verbatim>\<open>account_credentials.json\<close>).
\<close>

record flags =
  emailAddress :: string
  outputPath :: string
  useStaging :: bool

definition LogFatalWithExitingMessage :: "string \<Rightarrow> motmedel_error option \<Rightarrow> run" where
  "LogFatalWithExitingMessage msg err = \<lparr>effects = [], exit = Fatal msg err\<rparr>"

definition returned :: run where
  "returned = \<lparr>effects = [], exit = Returned\<rparr>"

text \<open>An effect, then the rest of the run.\<close>

definition do_effect :: "effect \<Rightarrow> run \<Rightarrow> run" where
  "do_effect e r = \<lparr>effects = e # effects r, exit = exit r\<rparr>"

subsection \<open>What the two programs share\<close>

text \<open>
  The directory URL (lines 84 to 87 and 179 to 182) and the contact address (lines 89 and
  184) are computed by the same statements in both programs.
\<close>

definition directoryUrl :: "flags \<Rightarrow> world \<Rightarrow> string" where
  "directoryUrl f w =
    (if useStaging f then ''https://acme-staging-v02.api.letsencrypt.org/directory''
     else acme_LetsEncryptURL w)"

definition contactAddress :: "flags \<Rightarrow> string" where
  "contactAddress f = ''mailto:'' @ emailAddress f"

subsection \<open>The key-only program (lines 19 to 108)\<close>

text \<open>The file mode \<^verbatim>\<open>0600\<close> of the source is octal: 384.\<close>

definition register_account_key :: "flags \<Rightarrow> world \<Rightarrow> run" where
  "register_account_key f w =
    (if emailAddress f = '''' then
       LogFatalWithExitingMessage ''The email address is empty.'' None
     else case mail_ParseAddress w (emailAddress f) of
       Some err \<Rightarrow>
         LogFatalWithExitingMessage ''The email address is invalid.''
           (Some (InputError ''The email address is invalid.'' err (AnyString (emailAddress f))))
     | None \<Rightarrow>
         do_effect (GenerateKey P256)
          (case ecdsa_GenerateKey w P256 of
             Inl err \<Rightarrow>
               LogFatalWithExitingMessage ''An error occurred when generating an account key.''
                 (Some (CauseError ''An error occurred when generating an account key.'' err))
           | Inr key \<Rightarrow>
              (case x509_MarshalECPrivateKey w key of
                 Inl err \<Rightarrow>
                   LogFatalWithExitingMessage ''An error occurred when marshalling the account key data.''
                     (Some (CauseError ''An error occurred when marshalling the account key data.'' err))
               | Inr keyDerData \<Rightarrow>
                  (let keyPemData = pem_EncodeToMemory w \<lparr>Type = ''EC PRIVATE KEY'', Bytes = keyDerData\<rparr> in
                   do_effect (WriteFile (outputPath f) keyPemData 384)
                    (case os_WriteFile w (outputPath f) keyPemData 384 of
                       Some err \<Rightarrow>
                         LogFatalWithExitingMessage
                           ''An error occurred when writing the account key PEM data to a file.''
                           (Some (InputError
                              ''An error occurred when writing the account key PEM data to a file.''
                              err (AnyString (outputPath f))))
                     | None \<Rightarrow>
                        (let client = \<lparr>Key = key, DirectoryURL = directoryUrl f w\<rparr>;
                             account = \<lparr>URI = '''', Contact = [contactAddress f]\<rparr>
                         in do_effect (Register client account AcceptTOS)
                             (case acme_Register w client account AcceptTOS of
                                Inl err \<Rightarrow>
                                  LogFatalWithExitingMessage
                                    ''An error occurred when registering the account.''
                                    (Some (InputError
                                       ''An error occurred when registering the account.'' err
                                       (AnyList [AnyString (contactAddress f),
                                                 AnyString (directoryUrl f w)])))
                              | Inr _ \<Rightarrow> returned)))))))"

subsection \<open>The credentials program (lines 129 to 230)\<close>

definition register_account_credentials :: "flags \<Rightarrow> world \<Rightarrow> run" where
  "register_account_credentials f w =
    (if emailAddress f = '''' then
       LogFatalWithExitingMessage ''The email address is empty.'' None
     else case mail_ParseAddress w (emailAddress f) of
       Some err \<Rightarrow>
         LogFatalWithExitingMessage ''The email address is invalid.''
           (Some (InputError ''The email address is invalid.'' err (AnyString (emailAddress f))))
     | None \<Rightarrow>
         do_effect (GenerateKey P256)
          (case ecdsa_GenerateKey w P256 of
             Inl err \<Rightarrow>
               LogFatalWithExitingMessage ''An error occurred when generating an account key.''
                 (Some (CauseError ''An error occurred when generating an account key.'' err))
           | Inr key \<Rightarrow>
              (case x509_MarshalECPrivateKey w key of
                 Inl err \<Rightarrow>
                   LogFatalWithExitingMessage ''An error occurred when marshalling the account key data.''
                     (Some (CauseError ''An error occurred when marshalling the account key data.'' err))
               | Inr keyDerData \<Rightarrow>
                  (let keyPemData = pem_EncodeToMemory w \<lparr>Type = ''EC PRIVATE KEY'', Bytes = keyDerData\<rparr>;
                       client = \<lparr>Key = key, DirectoryURL = directoryUrl f w\<rparr>;
                       request = \<lparr>URI = '''', Contact = [contactAddress f]\<rparr>
                   in do_effect (Register client request AcceptTOS)
                       (case acme_Register w client request AcceptTOS of
                          Inl err \<Rightarrow>
                            LogFatalWithExitingMessage
                              ''An error occurred when registering the account.''
                              (Some (InputError
                                 ''An error occurred when registering the account.'' err
                                 (AnyList [AnyString (contactAddress f), AnyString (directoryUrl f w)])))
                        | Inr None \<Rightarrow> LogFatalWithExitingMessage ''The account is nil.'' None
                        | Inr (Some account) \<Rightarrow>
                           (let accountUri = URI account in
                            if accountUri = '''' then
                              LogFatalWithExitingMessage ''The account URI is empty.'' None
                            else
                             (let accountCredentials = \<lparr>Uri = accountUri, cred_Key = keyPemData\<rparr> in
                              case json_Marshal w (AccountCredentials_json accountCredentials) of
                                Inl err \<Rightarrow>
                                  LogFatalWithExitingMessage
                                    ''An error occurred when marshalling the account credentials.''
                                    (Some (CauseError
                                       ''An error occurred when marshalling the account credentials.'' err))
                              | Inr accountCredentialsData \<Rightarrow>
                                  do_effect (WriteFile (outputPath f) accountCredentialsData 384)
                                   (case os_WriteFile w (outputPath f) accountCredentialsData 384 of
                                      Some err \<Rightarrow>
                                        LogFatalWithExitingMessage
                                          ''An error occurred when writing the account credentials data to disk.''
                                          (Some (InputError
                                             ''An error occurred when writing the account credentials data to disk.''
                                             err (AnyString (outputPath f))))
                                    | None \<Rightarrow> returned))))))))"

subsection \<open>Reading a run\<close>

text \<open>The network calls of a run, and the file writes that completed without an error.\<close>

definition network_calls :: "run \<Rightarrow> effect list" where
  "network_calls r = filter is_Register (effects r)"

fun write_completed :: "world \<Rightarrow> effect \<Rightarrow> bool" where
  "write_completed w (WriteFile p d m) = (os_WriteFile w p d m = None)"
| "write_completed w e = False"

definition written :: "world \<Rightarrow> run \<Rightarrow> effect list" where
  "written w r = filter (write_completed w) (effects r)"

subsection \<open>Concrete inputs\<close>

text \<open>
  A world in which every library call succeeds and the CA answers with an account, and
  the flags of a run for \<^verbatim>\<open>ops@example.com\<close> with the default output paths.
\<close>

text \<open>
  A serialiser for the concrete worlds: an object of two string members, whose strings
  need no escaping, between double quotes (the character \<open>0x22\<close>).
\<close>

definition quoted :: "string \<Rightarrow> string" where
  "quoted s = CHR 0x22 # s @ [CHR 0x22]"

definition json_text :: "json \<Rightarrow> go_error + bytes" where
  "json_text j =
    (case j of
       JObject [(k1, JString v1), (k2, JString v2)] \<Rightarrow>
         Inr (''{'' @ quoted k1 @ '':'' @ quoted v1 @ '','' @ quoted k2 @ '':'' @ quoted v2 @ ''}'')
     | _ \<Rightarrow> Inl ''json: unsupported value'')"

definition key0 :: ecdsa_PrivateKey where
  "key0 = \<lparr>Curve = P256, X = 5, Y = 7, D = 3\<rparr>"

definition world_ok :: world where
  "world_ok =
    \<lparr>mail_ParseAddress = (\<lambda>s. if s = ''ops@example.com'' then None else Some ''mail: no angle-addr''),
     ecdsa_GenerateKey = (\<lambda>c. Inr (key0\<lparr>Curve := c\<rparr>)),
     x509_MarshalECPrivateKey = (\<lambda>k. Inr ''DER''),
     pem_EncodeToMemory = (\<lambda>b. ''BEGIN '' @ Type b @ '' '' @ Bytes b @ '' END''),
     os_WriteFile = (\<lambda>p d m. None),
     acme_LetsEncryptURL = ''https://acme-v02.api.letsencrypt.org/directory'',
     acme_Register = (\<lambda>c a p. Inr (Some (a\<lparr>URI := ''https://ca/acct/123''\<rparr>))),
     json_Marshal = json_text\<rparr>"

text \<open>The same world, but the CA refuses the registration.\<close>

definition world_register_fails :: world where
  "world_register_fails = world_ok\<lparr>acme_Register := (\<lambda>c a p. Inl ''acme: server error'')\<rparr>"

text \<open>The same world, but the account that \<^verbatim>\<open>Register\<close> returns has no URI.\<close>

definition world_empty_uri :: world where
  "world_empty_uri = world_ok\<lparr>acme_Register := (\<lambda>c a p. Inr (Some (a\<lparr>URI := []\<rparr>)))\<rparr>"

definition flags_key :: flags where
  "flags_key = \<lparr>emailAddress = ''ops@example.com'', outputPath = ''account_key.pem'', useStaging = False\<rparr>"

definition flags_credentials :: flags where
  "flags_credentials =
    \<lparr>emailAddress = ''ops@example.com'', outputPath = ''account_credentials.json'', useStaging = True\<rparr>"

section \<open>The runs of the two programs\<close>

lemmas run_defs =
  LogFatalWithExitingMessage_def returned_def do_effect_def Let_def

lemmas prog_defs = register_account_key_def register_account_credentials_def run_defs

lemmas fixture_defs = world_ok_def world_register_fails_def world_empty_uri_def
  flags_key_def flags_credentials_def key0_def json_text_def AccountCredentials_json_def
  directoryUrl_def contactAddress_def

text \<open>
  A program is a chain of checks, each of which ends the run or lets it go on. The two
  rules below list the runs of each program, one case for each place where it can end,
  with the answers of the libraries that lead there.
\<close>

lemma key_run_cases [case_names empty_email invalid_email keygen_failed marshal_failed
    write_failed register_failed registered]:
  obtains
    "emailAddress f = ''''"
    "register_account_key f w = \<lparr>effects = [], exit = Fatal ''The email address is empty.'' None\<rparr>"
  | err where
    "emailAddress f \<noteq> ''''" "mail_ParseAddress w (emailAddress f) = Some err"
    "register_account_key f w =
       \<lparr>effects = [],
        exit = Fatal ''The email address is invalid.''
          (Some (InputError ''The email address is invalid.'' err (AnyString (emailAddress f))))\<rparr>"
  | err where
    "emailAddress f \<noteq> ''''" "mail_ParseAddress w (emailAddress f) = None"
    "ecdsa_GenerateKey w P256 = Inl err"
    "register_account_key f w =
       \<lparr>effects = [GenerateKey P256],
        exit = Fatal ''An error occurred when generating an account key.''
          (Some (CauseError ''An error occurred when generating an account key.'' err))\<rparr>"
  | key err where
    "emailAddress f \<noteq> ''''" "mail_ParseAddress w (emailAddress f) = None"
    "ecdsa_GenerateKey w P256 = Inr key" "x509_MarshalECPrivateKey w key = Inl err"
    "register_account_key f w =
       \<lparr>effects = [GenerateKey P256],
        exit = Fatal ''An error occurred when marshalling the account key data.''
          (Some (CauseError ''An error occurred when marshalling the account key data.'' err))\<rparr>"
  | key der err where
    "emailAddress f \<noteq> ''''" "mail_ParseAddress w (emailAddress f) = None"
    "ecdsa_GenerateKey w P256 = Inr key" "x509_MarshalECPrivateKey w key = Inr der"
    "os_WriteFile w (outputPath f)
       (pem_EncodeToMemory w \<lparr>Type = ''EC PRIVATE KEY'', Bytes = der\<rparr>) 384 = Some err"
    "register_account_key f w =
       \<lparr>effects = [GenerateKey P256,
          WriteFile (outputPath f) (pem_EncodeToMemory w \<lparr>Type = ''EC PRIVATE KEY'', Bytes = der\<rparr>) 384],
        exit = Fatal ''An error occurred when writing the account key PEM data to a file.''
          (Some (InputError ''An error occurred when writing the account key PEM data to a file.''
             err (AnyString (outputPath f))))\<rparr>"
  | key der err where
    "emailAddress f \<noteq> ''''" "mail_ParseAddress w (emailAddress f) = None"
    "ecdsa_GenerateKey w P256 = Inr key" "x509_MarshalECPrivateKey w key = Inr der"
    "os_WriteFile w (outputPath f)
       (pem_EncodeToMemory w \<lparr>Type = ''EC PRIVATE KEY'', Bytes = der\<rparr>) 384 = None"
    "acme_Register w \<lparr>Key = key, DirectoryURL = directoryUrl f w\<rparr>
       \<lparr>URI = '''', Contact = [contactAddress f]\<rparr> AcceptTOS = Inl err"
    "register_account_key f w =
       \<lparr>effects = [GenerateKey P256,
          WriteFile (outputPath f) (pem_EncodeToMemory w \<lparr>Type = ''EC PRIVATE KEY'', Bytes = der\<rparr>) 384,
          Register \<lparr>Key = key, DirectoryURL = directoryUrl f w\<rparr>
            \<lparr>URI = '''', Contact = [contactAddress f]\<rparr> AcceptTOS],
        exit = Fatal ''An error occurred when registering the account.''
          (Some (InputError ''An error occurred when registering the account.'' err
             (AnyList [AnyString (contactAddress f), AnyString (directoryUrl f w)])))\<rparr>"
  | key der a where
    "emailAddress f \<noteq> ''''" "mail_ParseAddress w (emailAddress f) = None"
    "ecdsa_GenerateKey w P256 = Inr key" "x509_MarshalECPrivateKey w key = Inr der"
    "os_WriteFile w (outputPath f)
       (pem_EncodeToMemory w \<lparr>Type = ''EC PRIVATE KEY'', Bytes = der\<rparr>) 384 = None"
    "acme_Register w \<lparr>Key = key, DirectoryURL = directoryUrl f w\<rparr>
       \<lparr>URI = '''', Contact = [contactAddress f]\<rparr> AcceptTOS = Inr a"
    "register_account_key f w =
       \<lparr>effects = [GenerateKey P256,
          WriteFile (outputPath f) (pem_EncodeToMemory w \<lparr>Type = ''EC PRIVATE KEY'', Bytes = der\<rparr>) 384,
          Register \<lparr>Key = key, DirectoryURL = directoryUrl f w\<rparr>
            \<lparr>URI = '''', Contact = [contactAddress f]\<rparr> AcceptTOS],
        exit = Returned\<rparr>"
proof (cases "emailAddress f = ''''")
  case True
  then show ?thesis by (intro that(1)) (simp_all add: prog_defs)
next
  case email: False
  show ?thesis
  proof (cases "mail_ParseAddress w (emailAddress f)")
    case (Some err)
    with email show ?thesis by (intro that(2)[of err]) (simp_all add: prog_defs)
  next
    case parsed: None
    show ?thesis
    proof (cases "ecdsa_GenerateKey w P256")
      case (Inl err)
      with email parsed show ?thesis by (intro that(3)[of err]) (simp_all add: prog_defs)
    next
      case gen: (Inr key)
      show ?thesis
      proof (cases "x509_MarshalECPrivateKey w key")
        case (Inl err)
        with email parsed gen show ?thesis by (intro that(4)[of key err]) (simp_all add: prog_defs)
      next
        case der: (Inr der)
        show ?thesis
        proof (cases "os_WriteFile w (outputPath f)
            (pem_EncodeToMemory w \<lparr>Type = ''EC PRIVATE KEY'', Bytes = der\<rparr>) 384")
          case (Some err)
          with email parsed gen der show ?thesis
            by (intro that(5)[of key der err]) (simp_all add: prog_defs)
        next
          case wrote: None
          show ?thesis
          proof (cases "acme_Register w \<lparr>Key = key, DirectoryURL = directoryUrl f w\<rparr>
              \<lparr>URI = '''', Contact = [contactAddress f]\<rparr> AcceptTOS")
            case (Inl err)
            with email parsed gen der wrote show ?thesis
              by (intro that(6)[of key der err]) (simp_all add: prog_defs)
          next
            case (Inr a)
            with email parsed gen der wrote show ?thesis
              by (intro that(7)[of key der a]) (simp_all add: prog_defs)
          qed
        qed
      qed
    qed
  qed
qed

lemma credentials_run_cases [case_names empty_email invalid_email keygen_failed marshal_failed
    register_failed account_nil uri_empty json_failed write_failed written]:
  obtains
    "emailAddress f = ''''"
    "register_account_credentials f w =
       \<lparr>effects = [], exit = Fatal ''The email address is empty.'' None\<rparr>"
  | err where
    "emailAddress f \<noteq> ''''" "mail_ParseAddress w (emailAddress f) = Some err"
    "register_account_credentials f w =
       \<lparr>effects = [],
        exit = Fatal ''The email address is invalid.''
          (Some (InputError ''The email address is invalid.'' err (AnyString (emailAddress f))))\<rparr>"
  | err where
    "emailAddress f \<noteq> ''''" "mail_ParseAddress w (emailAddress f) = None"
    "ecdsa_GenerateKey w P256 = Inl err"
    "register_account_credentials f w =
       \<lparr>effects = [GenerateKey P256],
        exit = Fatal ''An error occurred when generating an account key.''
          (Some (CauseError ''An error occurred when generating an account key.'' err))\<rparr>"
  | key err where
    "emailAddress f \<noteq> ''''" "mail_ParseAddress w (emailAddress f) = None"
    "ecdsa_GenerateKey w P256 = Inr key" "x509_MarshalECPrivateKey w key = Inl err"
    "register_account_credentials f w =
       \<lparr>effects = [GenerateKey P256],
        exit = Fatal ''An error occurred when marshalling the account key data.''
          (Some (CauseError ''An error occurred when marshalling the account key data.'' err))\<rparr>"
  | key der err where
    "emailAddress f \<noteq> ''''" "mail_ParseAddress w (emailAddress f) = None"
    "ecdsa_GenerateKey w P256 = Inr key" "x509_MarshalECPrivateKey w key = Inr der"
    "acme_Register w \<lparr>Key = key, DirectoryURL = directoryUrl f w\<rparr>
       \<lparr>URI = '''', Contact = [contactAddress f]\<rparr> AcceptTOS = Inl err"
    "register_account_credentials f w =
       \<lparr>effects = [GenerateKey P256,
          Register \<lparr>Key = key, DirectoryURL = directoryUrl f w\<rparr>
            \<lparr>URI = '''', Contact = [contactAddress f]\<rparr> AcceptTOS],
        exit = Fatal ''An error occurred when registering the account.''
          (Some (InputError ''An error occurred when registering the account.'' err
             (AnyList [AnyString (contactAddress f), AnyString (directoryUrl f w)])))\<rparr>"
  | key der where
    "emailAddress f \<noteq> ''''" "mail_ParseAddress w (emailAddress f) = None"
    "ecdsa_GenerateKey w P256 = Inr key" "x509_MarshalECPrivateKey w key = Inr der"
    "acme_Register w \<lparr>Key = key, DirectoryURL = directoryUrl f w\<rparr>
       \<lparr>URI = '''', Contact = [contactAddress f]\<rparr> AcceptTOS = Inr None"
    "register_account_credentials f w =
       \<lparr>effects = [GenerateKey P256,
          Register \<lparr>Key = key, DirectoryURL = directoryUrl f w\<rparr>
            \<lparr>URI = '''', Contact = [contactAddress f]\<rparr> AcceptTOS],
        exit = Fatal ''The account is nil.'' None\<rparr>"
  | key der account where
    "emailAddress f \<noteq> ''''" "mail_ParseAddress w (emailAddress f) = None"
    "ecdsa_GenerateKey w P256 = Inr key" "x509_MarshalECPrivateKey w key = Inr der"
    "acme_Register w \<lparr>Key = key, DirectoryURL = directoryUrl f w\<rparr>
       \<lparr>URI = '''', Contact = [contactAddress f]\<rparr> AcceptTOS = Inr (Some account)"
    "URI account = ''''"
    "register_account_credentials f w =
       \<lparr>effects = [GenerateKey P256,
          Register \<lparr>Key = key, DirectoryURL = directoryUrl f w\<rparr>
            \<lparr>URI = '''', Contact = [contactAddress f]\<rparr> AcceptTOS],
        exit = Fatal ''The account URI is empty.'' None\<rparr>"
  | key der account err where
    "emailAddress f \<noteq> ''''" "mail_ParseAddress w (emailAddress f) = None"
    "ecdsa_GenerateKey w P256 = Inr key" "x509_MarshalECPrivateKey w key = Inr der"
    "acme_Register w \<lparr>Key = key, DirectoryURL = directoryUrl f w\<rparr>
       \<lparr>URI = '''', Contact = [contactAddress f]\<rparr> AcceptTOS = Inr (Some account)"
    "URI account \<noteq> ''''"
    "json_Marshal w (AccountCredentials_json
       \<lparr>Uri = URI account,
        cred_Key = pem_EncodeToMemory w \<lparr>Type = ''EC PRIVATE KEY'', Bytes = der\<rparr>\<rparr>) = Inl err"
    "register_account_credentials f w =
       \<lparr>effects = [GenerateKey P256,
          Register \<lparr>Key = key, DirectoryURL = directoryUrl f w\<rparr>
            \<lparr>URI = '''', Contact = [contactAddress f]\<rparr> AcceptTOS],
        exit = Fatal ''An error occurred when marshalling the account credentials.''
          (Some (CauseError ''An error occurred when marshalling the account credentials.'' err))\<rparr>"
  | key der account content err where
    "emailAddress f \<noteq> ''''" "mail_ParseAddress w (emailAddress f) = None"
    "ecdsa_GenerateKey w P256 = Inr key" "x509_MarshalECPrivateKey w key = Inr der"
    "acme_Register w \<lparr>Key = key, DirectoryURL = directoryUrl f w\<rparr>
       \<lparr>URI = '''', Contact = [contactAddress f]\<rparr> AcceptTOS = Inr (Some account)"
    "URI account \<noteq> ''''"
    "json_Marshal w (AccountCredentials_json
       \<lparr>Uri = URI account,
        cred_Key = pem_EncodeToMemory w \<lparr>Type = ''EC PRIVATE KEY'', Bytes = der\<rparr>\<rparr>) = Inr content"
    "os_WriteFile w (outputPath f) content 384 = Some err"
    "register_account_credentials f w =
       \<lparr>effects = [GenerateKey P256,
          Register \<lparr>Key = key, DirectoryURL = directoryUrl f w\<rparr>
            \<lparr>URI = '''', Contact = [contactAddress f]\<rparr> AcceptTOS,
          WriteFile (outputPath f) content 384],
        exit = Fatal ''An error occurred when writing the account credentials data to disk.''
          (Some (InputError ''An error occurred when writing the account credentials data to disk.''
             err (AnyString (outputPath f))))\<rparr>"
  | key der account content where
    "emailAddress f \<noteq> ''''" "mail_ParseAddress w (emailAddress f) = None"
    "ecdsa_GenerateKey w P256 = Inr key" "x509_MarshalECPrivateKey w key = Inr der"
    "acme_Register w \<lparr>Key = key, DirectoryURL = directoryUrl f w\<rparr>
       \<lparr>URI = '''', Contact = [contactAddress f]\<rparr> AcceptTOS = Inr (Some account)"
    "URI account \<noteq> ''''"
    "json_Marshal w (AccountCredentials_json
       \<lparr>Uri = URI account,
        cred_Key = pem_EncodeToMemory w \<lparr>Type = ''EC PRIVATE KEY'', Bytes = der\<rparr>\<rparr>) = Inr content"
    "os_WriteFile w (outputPath f) content 384 = None"
    "register_account_credentials f w =
       \<lparr>effects = [GenerateKey P256,
          Register \<lparr>Key = key, DirectoryURL = directoryUrl f w\<rparr>
            \<lparr>URI = '''', Contact = [contactAddress f]\<rparr> AcceptTOS,
          WriteFile (outputPath f) content 384],
        exit = Returned\<rparr>"
proof (cases "emailAddress f = ''''")
  case True
  then show ?thesis by (intro that(1)) (simp_all add: prog_defs)
next
  case email: False
  show ?thesis
  proof (cases "mail_ParseAddress w (emailAddress f)")
    case (Some err)
    with email show ?thesis by (intro that(2)[of err]) (simp_all add: prog_defs)
  next
    case parsed: None
    show ?thesis
    proof (cases "ecdsa_GenerateKey w P256")
      case (Inl err)
      with email parsed show ?thesis by (intro that(3)[of err]) (simp_all add: prog_defs)
    next
      case gen: (Inr key)
      show ?thesis
      proof (cases "x509_MarshalECPrivateKey w key")
        case (Inl err)
        with email parsed gen show ?thesis by (intro that(4)[of key err]) (simp_all add: prog_defs)
      next
        case der: (Inr der)
        note upto = email parsed gen der
        show ?thesis
        proof (cases "acme_Register w \<lparr>Key = key, DirectoryURL = directoryUrl f w\<rparr>
            \<lparr>URI = '''', Contact = [contactAddress f]\<rparr> AcceptTOS")
          case (Inl err)
          with upto show ?thesis by (intro that(5)[of key der err]) (simp_all add: prog_defs)
        next
          case answer: (Inr a)
          show ?thesis
          proof (cases a)
            case None
            with upto answer show ?thesis by (intro that(6)[of key der]) (simp_all add: prog_defs)
          next
            case (Some account)
            note answered = answer[unfolded Some]
            show ?thesis
            proof (cases "URI account = ''''")
              case True
              with upto answered show ?thesis
                by (intro that(7)[of key der account]) (simp_all add: prog_defs)
            next
              case uri: False
              show ?thesis
              proof (cases "json_Marshal w (AccountCredentials_json
                  \<lparr>Uri = URI account,
                   cred_Key = pem_EncodeToMemory w \<lparr>Type = ''EC PRIVATE KEY'', Bytes = der\<rparr>\<rparr>)")
                case (Inl err)
                with upto answered uri show ?thesis
                  by (intro that(8)[of key der account err]) (simp_all add: prog_defs)
              next
                case json: (Inr content)
                show ?thesis
                proof (cases "os_WriteFile w (outputPath f) content 384")
                  case (Some err)
                  with upto answered uri json show ?thesis
                    by (intro that(9)[of key der account content err]) (simp_all add: prog_defs)
                next
                  case None
                  with upto answered uri json show ?thesis
                    by (intro that(10)[of key der account content]) (simp_all add: prog_defs)
                qed
              qed
            qed
          qed
        qed
      qed
    qed
  qed
qed

text \<open>
  The registration call of a run: its arguments, and what precedes it. The key-only
  program has written the key file by then; the credentials program has written
  nothing.
\<close>

lemma key_register_call:
  assumes "e \<in> set (effects (register_account_key f w))" and "is_Register e"
  shows "\<exists>key der.
           ecdsa_GenerateKey w P256 = Inr key \<and> x509_MarshalECPrivateKey w key = Inr der \<and>
           e = Register \<lparr>Key = key, DirectoryURL = directoryUrl f w\<rparr>
                 \<lparr>URI = '''', Contact = [contactAddress f]\<rparr> AcceptTOS \<and>
           effects (register_account_key f w) =
             [GenerateKey P256,
              WriteFile (outputPath f)
                (pem_EncodeToMemory w \<lparr>Type = ''EC PRIVATE KEY'', Bytes = der\<rparr>) 384, e] \<and>
           os_WriteFile w (outputPath f)
             (pem_EncodeToMemory w \<lparr>Type = ''EC PRIVATE KEY'', Bytes = der\<rparr>) 384 = None"
  using assms by (cases rule: key_run_cases [of f w]) auto

lemma credentials_register_call:
  assumes "e \<in> set (effects (register_account_credentials f w))" and "is_Register e"
  shows "\<exists>key der.
           ecdsa_GenerateKey w P256 = Inr key \<and> x509_MarshalECPrivateKey w key = Inr der \<and>
           e = Register \<lparr>Key = key, DirectoryURL = directoryUrl f w\<rparr>
                 \<lparr>URI = '''', Contact = [contactAddress f]\<rparr> AcceptTOS \<and>
           take 2 (effects (register_account_credentials f w)) = [GenerateKey P256, e]"
  using assms by (cases rule: credentials_run_cases [of f w]) auto

text \<open>The file writes of a run.\<close>

lemma key_write_call:
  assumes "e \<in> set (effects (register_account_key f w))" and "is_WriteFile e"
  shows "perm e = 384 \<and> path e = outputPath f"
  using assms by (cases rule: key_run_cases [of f w]) auto

lemma credentials_write_call:
  assumes "e \<in> set (effects (register_account_credentials f w))" and "is_WriteFile e"
  shows "perm e = 384 \<and> path e = outputPath f"
  using assms by (cases rule: credentials_run_cases [of f w]) auto

text \<open>A run for an address that passes both checks starts by generating the key.\<close>

lemma key_generates_once:
  assumes "emailAddress f \<noteq> ''''" and "mail_ParseAddress w (emailAddress f) = None"
  shows "take 1 (effects (register_account_key f w)) = [GenerateKey P256] \<and>
         filter is_GenerateKey (effects (register_account_key f w)) = [GenerateKey P256]"
  using assms by (cases rule: key_run_cases [of f w]) auto

lemma credentials_generates_once:
  assumes "emailAddress f \<noteq> ''''" and "mail_ParseAddress w (emailAddress f) = None"
  shows "take 1 (effects (register_account_credentials f w)) = [GenerateKey P256] \<and>
         filter is_GenerateKey (effects (register_account_credentials f w)) = [GenerateKey P256]"
  using assms by (cases rule: credentials_run_cases [of f w]) auto

section \<open>Properties\<close>

subsection \<open>Persistence\<close>

text \<open>
  C2, as the specification states it: if the registration fails at any step, neither the
  key nor the credentials record has been written. The key-only program writes the key
  file before it registers: when the CA refuses the registration, the run fails and the
  key file is on disk.
\<close>

theorem C2_counterexample:
  "exit (register_account_key flags_key world_register_fails) =
     Fatal ''An error occurred when registering the account.''
       (Some (InputError ''An error occurred when registering the account.'' ''acme: server error''
          (AnyList [AnyString ''mailto:ops@example.com'',
                    AnyString ''https://acme-v02.api.letsencrypt.org/directory'']))) \<and>
   written world_register_fails (register_account_key flags_key world_register_fails) =
     [WriteFile ''account_key.pem'' ''BEGIN EC PRIVATE KEY DER END'' 384]"
  by (simp add: prog_defs fixture_defs written_def)

text \<open>
  C2, amended: in the credentials program persistence is all or nothing. A run that
  fails has completed no write; a run that returns has completed exactly one, of the
  serialised credentials record (the URI of the account the CA returned, the PEM of the
  key that registered), to the output path. In the key-only program the key file is
  written before the registration call is made.
\<close>

theorem C2_credentials_all_or_nothing:
  "(exit (register_account_credentials f w) \<noteq> Returned \<longrightarrow>
      written w (register_account_credentials f w) = []) \<and>
   (exit (register_account_credentials f w) = Returned \<longrightarrow>
      (\<exists>key der e account content.
         ecdsa_GenerateKey w P256 = Inr key \<and> x509_MarshalECPrivateKey w key = Inr der \<and>
         is_Register e \<and> Key (client e) = key \<and>
         acme_Register w (client e) (acct e) (prompt e) = Inr (Some account) \<and>
         URI account \<noteq> '''' \<and>
         json_Marshal w (AccountCredentials_json
            \<lparr>Uri = URI account,
             cred_Key = pem_EncodeToMemory w \<lparr>Type = ''EC PRIVATE KEY'', Bytes = der\<rparr>\<rparr>)
           = Inr content \<and>
         effects (register_account_credentials f w) =
           [GenerateKey P256, e, WriteFile (outputPath f) content 384] \<and>
         written w (register_account_credentials f w) = [WriteFile (outputPath f) content 384])) \<and>
   (\<forall>e \<in> set (effects (register_account_key f w)). is_Register e \<longrightarrow>
      (\<exists>keyPemData.
         effects (register_account_key f w) =
           [GenerateKey P256, WriteFile (outputPath f) keyPemData 384, e] \<and>
         written w (register_account_key f w) = [WriteFile (outputPath f) keyPemData 384]))"
proof (intro conjI ballI impI)
  assume "exit (register_account_credentials f w) \<noteq> Returned"
  then show "written w (register_account_credentials f w) = []"
    by (cases rule: credentials_run_cases [of f w]) (simp_all add: written_def)
next
  assume "exit (register_account_credentials f w) = Returned"
  then show "\<exists>key der e account content.
      ecdsa_GenerateKey w P256 = Inr key \<and> x509_MarshalECPrivateKey w key = Inr der \<and>
      is_Register e \<and> Key (client e) = key \<and>
      acme_Register w (client e) (acct e) (prompt e) = Inr (Some account) \<and>
      URI account \<noteq> '''' \<and>
      json_Marshal w (AccountCredentials_json
         \<lparr>Uri = URI account,
          cred_Key = pem_EncodeToMemory w \<lparr>Type = ''EC PRIVATE KEY'', Bytes = der\<rparr>\<rparr>)
        = Inr content \<and>
      effects (register_account_credentials f w) =
        [GenerateKey P256, e, WriteFile (outputPath f) content 384] \<and>
      written w (register_account_credentials f w) = [WriteFile (outputPath f) content 384]"
  proof (cases rule: credentials_run_cases [of f w])
    case (written key der account content)
    then show ?thesis
      by (intro exI [of _ key] exI [of _ der] exI [of _ account] exI [of _ content]
          exI [of _ "Register \<lparr>Key = key, DirectoryURL = directoryUrl f w\<rparr>
                       \<lparr>URI = '''', Contact = [contactAddress f]\<rparr> AcceptTOS"])
        (simp add: written_def)
  qed simp_all
next
  fix e
  assume "e \<in> set (effects (register_account_key f w))" and "is_Register e"
  then obtain key der where
    "effects (register_account_key f w) =
       [GenerateKey P256,
        WriteFile (outputPath f)
          (pem_EncodeToMemory w \<lparr>Type = ''EC PRIVATE KEY'', Bytes = der\<rparr>) 384, e]"
    "os_WriteFile w (outputPath f)
       (pem_EncodeToMemory w \<lparr>Type = ''EC PRIVATE KEY'', Bytes = der\<rparr>) 384 = None"
    using key_register_call [of e f w] by blast
  with \<open>is_Register e\<close> show "\<exists>keyPemData.
      effects (register_account_key f w) =
        [GenerateKey P256, WriteFile (outputPath f) keyPemData 384, e] \<and>
      written w (register_account_key f w) = [WriteFile (outputPath f) keyPemData 384]"
    by (cases e) (simp_all add: written_def)
qed

theorem C2_credentials_all_or_nothing_witness:
  "exit (register_account_credentials flags_credentials world_ok) = Returned \<and>
   written world_ok (register_account_credentials flags_credentials world_ok) =
     [WriteFile ''account_credentials.json''
        (''{'' @ quoted ''uri'' @ '':'' @ quoted ''https://ca/acct/123'' @ '','' @
         quoted ''key'' @ '':'' @ quoted ''BEGIN EC PRIVATE KEY DER END'' @ ''}'') 384] \<and>
   exit (register_account_credentials flags_credentials world_register_fails) \<noteq> Returned \<and>
   written world_register_fails
     (register_account_credentials flags_credentials world_register_fails) = []"
  using C2_credentials_all_or_nothing [of flags_credentials world_ok]
    C2_credentials_all_or_nothing [of flags_credentials world_register_fails]
  by (simp add: prog_defs fixture_defs written_def)

subsection \<open>The account URI\<close>

text \<open>
  C3, as the specification states it: every run whose network exchange succeeds with an
  empty or missing account URI fails. The key-only program discards the account that
  \<^verbatim>\<open>Register\<close> returns: when the CA answers with an account of empty URI, the run returns.
\<close>

theorem C3_counterexample:
  "map (\<lambda>e. acme_Register world_empty_uri (client e) (acct e) (prompt e))
       (network_calls (register_account_key flags_key world_empty_uri)) =
     [Inr (Some \<lparr>URI = '''', Contact = [''mailto:ops@example.com'']\<rparr>)] \<and>
   exit (register_account_key flags_key world_empty_uri) = Returned"
  by (simp add: prog_defs fixture_defs network_calls_def)

text \<open>
  C3, amended: in the credentials program, when \<^verbatim>\<open>Register\<close> returns no error and the
  account is nil, or its URI is empty, the run stops there with a fatal exit (``The
  account is nil.'', ``The account URI is empty.''), having written nothing; and a run
  that returns has received an account whose URI is not empty.
\<close>

theorem C3_credentials_rejects_empty_uri:
  "(\<forall>e \<in> set (network_calls (register_account_credentials f w)).
      (acme_Register w (client e) (acct e) (prompt e) = Inr None \<longrightarrow>
         register_account_credentials f w =
           \<lparr>effects = [GenerateKey P256, e], exit = Fatal ''The account is nil.'' None\<rparr>) \<and>
      (\<forall>account. acme_Register w (client e) (acct e) (prompt e) = Inr (Some account) \<and>
           URI account = '''' \<longrightarrow>
         register_account_credentials f w =
           \<lparr>effects = [GenerateKey P256, e], exit = Fatal ''The account URI is empty.'' None\<rparr>)) \<and>
   (exit (register_account_credentials f w) = Returned \<longrightarrow>
      (\<exists>e account. network_calls (register_account_credentials f w) = [e] \<and>
         acme_Register w (client e) (acct e) (prompt e) = Inr (Some account) \<and>
         URI account \<noteq> ''''))"
proof (intro conjI ballI impI allI)
  fix e
  assume "e \<in> set (network_calls (register_account_credentials f w))"
    and "acme_Register w (client e) (acct e) (prompt e) = Inr None"
  then show "register_account_credentials f w =
      \<lparr>effects = [GenerateKey P256, e], exit = Fatal ''The account is nil.'' None\<rparr>"
    by (cases rule: credentials_run_cases [of f w]) (auto simp: network_calls_def)
next
  fix e account
  assume "e \<in> set (network_calls (register_account_credentials f w))"
    and "acme_Register w (client e) (acct e) (prompt e) = Inr (Some account) \<and> URI account = ''''"
  then show "register_account_credentials f w =
      \<lparr>effects = [GenerateKey P256, e], exit = Fatal ''The account URI is empty.'' None\<rparr>"
    by (cases rule: credentials_run_cases [of f w]) (auto simp: network_calls_def)
next
  assume "exit (register_account_credentials f w) = Returned"
  then show "\<exists>e account. network_calls (register_account_credentials f w) = [e] \<and>
      acme_Register w (client e) (acct e) (prompt e) = Inr (Some account) \<and> URI account \<noteq> ''''"
    by (cases rule: credentials_run_cases [of f w]) (auto simp: network_calls_def)
qed

theorem C3_credentials_rejects_empty_uri_witness:
  "map (\<lambda>e. acme_Register world_empty_uri (client e) (acct e) (prompt e))
       (network_calls (register_account_credentials flags_credentials world_empty_uri)) =
     [Inr (Some \<lparr>URI = '''', Contact = [''mailto:ops@example.com'']\<rparr>)] \<and>
   exit (register_account_credentials flags_credentials world_empty_uri) =
     Fatal ''The account URI is empty.'' None \<and>
   written world_empty_uri (register_account_credentials flags_credentials world_empty_uri) = []"
  using C3_credentials_rejects_empty_uri [of flags_credentials world_empty_uri]
  by (simp add: prog_defs fixture_defs network_calls_def written_def)

subsection \<open>The empty address\<close>

text \<open>
  C4, as the specification states it: with the empty email address the run fails with an
  \<^verbatim>\<open>InputError\<close> before any key generation. The check of the empty address calls
  \<^verbatim>\<open>LogFatalWithExitingMessage\<close> with \<^verbatim>\<open>nil\<close> for the error: the exit carries no
  \<^verbatim>\<open>InputError\<close>, in either program. The next check, of an address that does not parse,
  does build one.
\<close>

theorem C4_counterexample:
  "\<not> fails_with_InputError
       (exit (register_account_key (flags_key\<lparr>emailAddress := ''''\<rparr>) world_ok)) \<and>
   \<not> fails_with_InputError
       (exit (register_account_credentials (flags_credentials\<lparr>emailAddress := ''''\<rparr>) world_ok)) \<and>
   fails_with_InputError
     (exit (register_account_key (flags_key\<lparr>emailAddress := ''ops''\<rparr>) world_ok))"
  by (simp add: prog_defs fixture_defs)

text \<open>
  C4, amended: with the empty email address a run of either program fails at its first
  statement after the flags, the check of the address: it exits with the message ``The
  email address is empty.'' and no error value, and has no effect at all: no key is
  generated, no file written, no network call made.
\<close>

theorem C4_empty_email_fails_first:
  assumes "emailAddress f = ''''"
  shows "register_account_key f w =
           \<lparr>effects = [], exit = Fatal ''The email address is empty.'' None\<rparr> \<and>
         register_account_credentials f w =
           \<lparr>effects = [], exit = Fatal ''The email address is empty.'' None\<rparr>"
  using assms by (simp add: prog_defs)

theorem C4_empty_email_fails_first_witness:
  "emailAddress (flags_key\<lparr>emailAddress := ''''\<rparr>) = '''' \<and>
   effects (register_account_key (flags_key\<lparr>emailAddress := ''''\<rparr>) world_ok) = [] \<and>
   exit (register_account_key (flags_key\<lparr>emailAddress := ''''\<rparr>) world_ok)
     = Fatal ''The email address is empty.'' None \<and>
   network_calls (register_account_credentials (flags_key\<lparr>emailAddress := ''''\<rparr>) world_ok) = []"
  using C4_empty_email_fails_first [of "flags_key\<lparr>emailAddress := ''''\<rparr>" world_ok]
  by (simp add: flags_key_def network_calls_def)

subsection \<open>The persisted credentials\<close>

text \<open>
  C5. A run of the credentials program that returns has written one file, to the output
  path: the serialisation of the JSON object with exactly the members \<^verbatim>\<open>uri\<close>, the URI of
  the account that \<^verbatim>\<open>Register\<close> returned, and \<^verbatim>\<open>key\<close>, the PEM block of type EC PRIVATE KEY
  of the marshalled key, the key that was generated in the run and given to the client
  that registered.
\<close>

theorem C5_persisted_credentials_format:
  assumes "exit (register_account_credentials f w) = Returned"
  shows "\<exists>key der e account content.
     ecdsa_GenerateKey w P256 = Inr key \<and> x509_MarshalECPrivateKey w key = Inr der \<and>
     is_Register e \<and> Key (client e) = key \<and>
     acme_Register w (client e) (acct e) (prompt e) = Inr (Some account) \<and>
     json_Marshal w
       (JObject [(''uri'', JString (URI account)),
                 (''key'', JString (pem_EncodeToMemory w \<lparr>Type = ''EC PRIVATE KEY'', Bytes = der\<rparr>))])
       = Inr content \<and>
     effects (register_account_credentials f w) =
       [GenerateKey P256, e, WriteFile (outputPath f) content 384] \<and>
     os_WriteFile w (outputPath f) content 384 = None"
  using assms
proof (cases rule: credentials_run_cases [of f w])
  case (written key der account content)
  then show ?thesis
    by (intro exI [of _ key] exI [of _ der] exI [of _ account] exI [of _ content]
        exI [of _ "Register \<lparr>Key = key, DirectoryURL = directoryUrl f w\<rparr>
                     \<lparr>URI = '''', Contact = [contactAddress f]\<rparr> AcceptTOS"])
      (simp add: AccountCredentials_json_def)
qed simp_all

theorem C5_persisted_credentials_format_witness:
  "exit (register_account_credentials flags_credentials world_ok) = Returned \<and>
   json_Marshal world_ok
     (JObject [(''uri'', JString ''https://ca/acct/123''),
               (''key'', JString ''BEGIN EC PRIVATE KEY DER END'')]) =
     Inr (''{'' @ quoted ''uri'' @ '':'' @ quoted ''https://ca/acct/123'' @ '','' @
          quoted ''key'' @ '':'' @ quoted ''BEGIN EC PRIVATE KEY DER END'' @ ''}'') \<and>
   map data (filter is_WriteFile (effects (register_account_credentials flags_credentials world_ok))) =
     [''{'' @ quoted ''uri'' @ '':'' @ quoted ''https://ca/acct/123'' @ '','' @
      quoted ''key'' @ '':'' @ quoted ''BEGIN EC PRIVATE KEY DER END'' @ ''}'']"
  using C5_persisted_credentials_format [of flags_credentials world_ok]
  by (simp add: prog_defs fixture_defs)

subsection \<open>The registration call\<close>

text \<open>
  C6. The directory URL of the client of every registration call is
  \<^verbatim>\<open>acme.LetsEncryptURL\<close>, the production directory, when the flag \<^verbatim>\<open>-staging\<close> is unset, and
  the URL of the staging directory when it is set.
\<close>

theorem C6_directory_url:
  "\<forall>e \<in> set (effects (register_account_key f w)) \<union> set (effects (register_account_credentials f w)).
     is_Register e \<longrightarrow>
       (\<not> useStaging f \<longrightarrow> DirectoryURL (client e) = acme_LetsEncryptURL w) \<and>
       (useStaging f \<longrightarrow>
          DirectoryURL (client e) = ''https://acme-staging-v02.api.letsencrypt.org/directory'')"
proof (intro ballI impI)
  fix e
  assume "e \<in> set (effects (register_account_key f w)) \<union>
              set (effects (register_account_credentials f w))"
    and "is_Register e"
  then have "DirectoryURL (client e) = directoryUrl f w"
    using key_register_call [of e f w] credentials_register_call [of e f w] by auto
  then show "(\<not> useStaging f \<longrightarrow> DirectoryURL (client e) = acme_LetsEncryptURL w) \<and>
      (useStaging f \<longrightarrow>
         DirectoryURL (client e) = ''https://acme-staging-v02.api.letsencrypt.org/directory'')"
    by (simp add: directoryUrl_def)
qed

theorem C6_directory_url_witness:
  "map (\<lambda>e. DirectoryURL (client e)) (network_calls (register_account_key flags_key world_ok))
     = [acme_LetsEncryptURL world_ok] \<and>
   map (\<lambda>e. DirectoryURL (client e))
       (network_calls (register_account_credentials flags_credentials world_ok))
     = [''https://acme-staging-v02.api.letsencrypt.org/directory'']"
  using C6_directory_url [of flags_key world_ok] C6_directory_url [of flags_credentials world_ok]
  by (simp add: prog_defs fixture_defs network_calls_def)




subsection \<open>The account key\<close>

text \<open>
  C9. A run for an address that passes the checks begins by generating a key with
  \<^verbatim>\<open>ecdsa.GenerateKey\<close> on the curve P-256, generates no other, and every registration call
  it makes is made by a client whose key is the key that call returned.
\<close>

theorem C9_key_generated_on_P256:
  assumes "emailAddress f \<noteq> ''''" and "mail_ParseAddress w (emailAddress f) = None"
  shows "\<forall>r \<in> {register_account_key f w, register_account_credentials f w}.
           take 1 (effects r) = [GenerateKey P256] \<and>
           filter is_GenerateKey (effects r) = [GenerateKey P256] \<and>
           (\<forall>e \<in> set (effects r). is_Register e \<longrightarrow>
              ecdsa_GenerateKey w P256 = Inr (Key (client e)))"
proof -
  have "ecdsa_GenerateKey w P256 = Inr (Key (client e))"
    if "e \<in> set (effects (register_account_key f w))" and "is_Register e" for e
    using key_register_call [OF that] by auto
  moreover have "ecdsa_GenerateKey w P256 = Inr (Key (client e))"
    if "e \<in> set (effects (register_account_credentials f w))" and "is_Register e" for e
    using credentials_register_call [OF that] by auto
  ultimately show ?thesis
    using key_generates_once [OF assms] credentials_generates_once [OF assms] by simp
qed

theorem C9_key_generated_on_P256_witness:
  "take 1 (effects (register_account_key flags_key world_ok)) = [GenerateKey P256] \<and>
   map (\<lambda>e. Key (client e)) (network_calls (register_account_key flags_key world_ok)) = [key0] \<and>
   ecdsa_GenerateKey world_ok P256 = Inr key0"
  using C9_key_generated_on_P256 [of flags_key world_ok]
  by (simp add: prog_defs fixture_defs network_calls_def)

subsection \<open>File modes\<close>

text \<open>
  C10. Every file a program writes (the key PEM of the key-only program, the credentials
  JSON of the credentials program) is written with the mode 0600, that is 384: the owner's
  digit is 6 (read and write), the group's and the others' digits are 0.
\<close>

theorem C10_file_mode_0600:
  "\<forall>e \<in> set (effects (register_account_key f w)) \<union> set (effects (register_account_credentials f w)).
     is_WriteFile e \<longrightarrow>
       perm e = 384 \<and> perm e div 64 = 6 \<and> (perm e div 8) mod 8 = 0 \<and> perm e mod 8 = 0"
proof (intro ballI impI)
  fix e
  assume "e \<in> set (effects (register_account_key f w)) \<union>
              set (effects (register_account_credentials f w))"
    and "is_WriteFile e"
  then have "perm e = 384"
    using key_write_call [of e f w] credentials_write_call [of e f w] by auto
  then show "perm e = 384 \<and> perm e div 64 = 6 \<and> (perm e div 8) mod 8 = 0 \<and> perm e mod 8 = 0"
    by simp
qed

theorem C10_file_mode_0600_witness:
  "map perm (filter is_WriteFile (effects (register_account_key flags_key world_ok))) = [384] \<and>
   map perm (filter is_WriteFile (effects (register_account_credentials flags_credentials world_ok)))
     = [384]"
  using C10_file_mode_0600 [of flags_key world_ok] C10_file_mode_0600 [of flags_credentials world_ok]
  by (simp add: prog_defs fixture_defs)

end
